theory Spec2Isabelle
  imports Complex_Main
begin

section \<open>The notebook \<open>Q3.py\<close>: data model\<close>

text \<open>
  The notebook is a chain of cells: controls (cell 3), data generation (cell 4),
  statistics (cell 5), summary text (cell 7). Each cell is a Python function of the values
  it depends on, so each becomes a HOL function of the same arguments.

  The entries of a frame are real numbers (every finite double is one). A float that a
  library hands back is a \<open>pyfloat\<close>: a finite number, negative zero, an infinity or NaN.
  How IEEE arithmetic rounds inside a library call is not modelled: the numerical core of
  such a call is a parameter, and only what the library does around it (argument checks,
  clipping, the degrees of freedom) is written out.
  An exception raised by a library call is the \<open>Inl\<close> branch of a sum.
\<close>

datatype py_error = ValueError | TypeError | LinAlgError

datatype pyfloat = Num real | NegZero | PosInf | NegInf | NaN

fun is_finite :: "pyfloat \<Rightarrow> bool" where
  "is_finite (Num v) = True"
| "is_finite NegZero = True"
| "is_finite PosInf = False"
| "is_finite NegInf = False"
| "is_finite NaN = False"

text \<open>
  \<open>mo.ui.slider(start, stop, step, value, label)\<close>: the widget keeps its arguments.
  The field \<open>val\<close> is the widget's \<open>value\<close>, which the other cells read as \<open>n.value\<close>
  and \<open>noise.value\<close>.
\<close>

record 'a slider =
  start :: 'a
  stop :: 'a
  step :: 'a
  val :: 'a
  label :: string

text \<open>
  \<open>pd.DataFrame({"x": x, "y": y})\<close>: two named columns. pandas refuses columns of
  different lengths with a \<open>ValueError\<close>.
\<close>

record dataframe =
  col_x :: "real list"
  col_y :: "real list"

definition DataFrame :: "real list \<Rightarrow> real list \<Rightarrow> py_error + dataframe" where
  "DataFrame x y =
     (if length x = length y then Inr \<lparr>col_x = x, col_y = y\<rparr> else Inl ValueError)"

definition wf_df :: "dataframe \<Rightarrow> bool" where
  "wf_df df \<longleftrightarrow> length (col_x df) = length (col_y df)"

section \<open>The random number library\<close>

text \<open>
  \<open>np.random.default_rng(seed)\<close> builds a generator whose stream is a function of the
  seed; drawing a standard normal value advances the generator. The bit generator itself
  is numpy's, so both operations are parameters of the model: \<open>'g\<close> is the generator
  state.
\<close>

record 'g numpy_random =
  default_rng :: "nat \<Rightarrow> 'g"
  standard_normal :: "'g \<Rightarrow> real \<times> 'g"

text \<open>
  \<open>rng.normal(loc, scale, size=k)\<close> fills an array of \<open>k\<close> values, each
  \<open>loc + scale * z\<close> for the next standard normal draw \<open>z\<close>.
\<close>

fun normal_fill :: "('g \<Rightarrow> real \<times> 'g) \<Rightarrow> real \<Rightarrow> real \<Rightarrow> nat \<Rightarrow> 'g \<Rightarrow> real list \<times> 'g" where
  "normal_fill gauss loc scale 0 g = ([], g)"
| "normal_fill gauss loc scale (Suc k) g =
     (case gauss g of (z, g') \<Rightarrow>
        (case normal_fill gauss loc scale k g' of (zs, g'') \<Rightarrow>
           ((loc + scale * z) # zs, g'')))"

text \<open>
  numpy raises \<open>ValueError\<close> for a negative scale (\<open>scale < 0\<close>) and for a negative
  size (\<open>negative dimensions are not allowed\<close>); size 0 gives an empty array.
\<close>

definition normal :: "'g numpy_random \<Rightarrow> 'g \<Rightarrow> real \<Rightarrow> real \<Rightarrow> int \<Rightarrow> py_error + (real list \<times> 'g)" where
  "normal np rng loc scale sz =
     (if scale < 0 then Inl ValueError
      else if sz < 0 then Inl ValueError
      else Inr (normal_fill (standard_normal np) loc scale (nat sz) rng))"

section \<open>Cell 3: the controls\<close>

text \<open>The label of the second slider ends in the Greek letter sigma, two bytes in UTF-8.\<close>

definition sigma_utf8 :: string where
  "sigma_utf8 = [CHR 0xCF, CHR 0x83]"

definition cell3 :: "int slider \<times> real slider" where
  "cell3 =
     (let n = \<lparr>start = 100, stop = 5000, step = 100, val = 1000, label = ''Sample size n''\<rparr>;
          noise = \<lparr>start = 0.0, stop = 2.0, step = 0.1, val = 0.5,
                   label = ''Noise '' @ sigma_utf8\<rparr>
      in (n, noise))"

section \<open>Cell 4: data generation\<close>

text \<open>
  \<^verbatim>\<open>
  rng = np.random.default_rng(123)
  x = rng.normal(0, 1, size=n.value)
  y = 2.5 * x + rng.normal(0, noise.value, size=n.value)
  df = pd.DataFrame({"x": x, "y": y})
  \<close>
  The arguments are \<open>n.value\<close> and \<open>noise.value\<close>. The array sum is elementwise; both
  arrays have the same length here, so \<open>map2\<close> is the sum.
\<close>

definition cell4 :: "'g numpy_random \<Rightarrow> int \<Rightarrow> real \<Rightarrow> py_error + dataframe" where
  "cell4 np n_value noise_value =
     (let rng = default_rng np 123 in
      case normal np rng 0 1 n_value of
        Inl e \<Rightarrow> Inl e
      | Inr (x, rng1) \<Rightarrow>
          (case normal np rng1 0 noise_value n_value of
             Inl e \<Rightarrow> Inl e
           | Inr (eps, rng2) \<Rightarrow>
               (let y = map2 (\<lambda>a b. 2.5 * a + b) x eps in DataFrame x y)))"


section \<open>Cell 5: statistics\<close>

text \<open>
  \<^verbatim>\<open>
  corr = df["x"].corr(df["y"])
  m, b = np.polyfit(df["x"], df["y"], 1)
  \<close>
  Both calls are library calls, and both end in floating-point linear algebra (a matrix
  product for the covariances, a singular value decomposition for the fit). What those
  computations return, rounding, overflow and underflow included, is given by two
  parameters:
  \<^item> \<open>corr_entry a b\<close>: the entry \<open>[0, 1]\<close> of the covariance matrix of \<open>a\<close> and \<open>b\<close> divided
    by the two standard deviations, as \<open>np.corrcoef\<close> has it just before it clips;
  \<^item> \<open>lstsq_line x y\<close>: slope and intercept as \<open>np.polyfit\<close> gets them from \<open>lstsq\<close>
    (after scaling the columns and scaling back), \<open>None\<close> when \<open>lstsq\<close> raises
    \<open>LinAlgError\<close>.
\<close>

record numpy_stats =
  corr_entry :: "real list \<Rightarrow> real list \<Rightarrow> pyfloat"
  lstsq_line :: "real list \<Rightarrow> real list \<Rightarrow> (pyfloat \<times> pyfloat) option"

text \<open>
  \<open>np.clip(c, -1, 1)\<close>, the last step of \<open>np.corrcoef\<close>: \<open>minimum(maximum(c, -1), 1)\<close>.
  An infinity goes to the bound, NaN stays NaN, negative zero stays negative zero.
\<close>

fun clip_unit :: "pyfloat \<Rightarrow> pyfloat" where
  "clip_unit (Num v) = Num (min (max v (- 1)) 1)"
| "clip_unit NegZero = NegZero"
| "clip_unit PosInf = Num 1"
| "clip_unit NegInf = Num (- 1)"
| "clip_unit NaN = NaN"

text \<open>
  \<open>np.corrcoef(a, b)[0, 1]\<close>. \<open>np.cov\<close> divides by \<open>N - 1\<close>; for a single observation that
  factor is 0, the deviations from the mean are 0, and the covariance entries are
  \<open>0 * inf\<close>, NaN, whatever the data. Otherwise the entry is computed, divided by the
  standard deviations, and clipped.
\<close>

definition np_corrcoef :: "(real list \<Rightarrow> real list \<Rightarrow> pyfloat) \<Rightarrow> real list \<Rightarrow> real list \<Rightarrow> pyfloat" where
  "np_corrcoef entry a b =
     (let fact = real (length a) - 1 in
      if fact \<le> 0 then NaN else clip_unit (entry a b))"

text \<open>
  \<open>Series.corr\<close> (method pearson, \<open>min_periods\<close> 1) returns NaN for an empty series and
  calls \<open>np.corrcoef\<close> otherwise. The two series are columns of one frame, so aligning
  them changes nothing.
\<close>

definition series_corr :: "(real list \<Rightarrow> real list \<Rightarrow> pyfloat) \<Rightarrow> real list \<Rightarrow> real list \<Rightarrow> pyfloat" where
  "series_corr entry a b = (if length a = 0 then NaN else np_corrcoef entry a b)"

text \<open>
  \<open>np.polyfit(x, y, 1)\<close>: numpy raises \<open>TypeError\<close> for an empty \<open>x\<close> and for \<open>x\<close> and
  \<open>y\<close> of different lengths, before any arithmetic. Then it solves the least-squares
  problem with \<open>lstsq\<close> and returns the two coefficients, slope first.
\<close>

definition np_polyfit :: "numpy_stats \<Rightarrow> real list \<Rightarrow> real list \<Rightarrow> py_error + (pyfloat \<times> pyfloat)" where
  "np_polyfit L x y =
     (if length x = 0 then Inl TypeError
      else if length x \<noteq> length y then Inl TypeError
      else (case lstsq_line L x y of
              None \<Rightarrow> Inl LinAlgError
            | Some (m, b) \<Rightarrow> Inr (m, b)))"

definition cell5 :: "numpy_stats \<Rightarrow> dataframe \<Rightarrow> py_error + (pyfloat \<times> pyfloat \<times> pyfloat)" where
  "cell5 L df =
     (let corr = series_corr (corr_entry L) (col_x df) (col_y df) in
      case np_polyfit L (col_x df) (col_y df) of
        Inl e \<Rightarrow> Inl e
      | Inr (m, b) \<Rightarrow> Inr (corr, m, b))"

text \<open>
  The cells run in dependency order: cell 5 receives the frame cell 4 returned, and does not
  run when cell 4 raised.
\<close>

definition cells_4_5 :: "'g numpy_random \<Rightarrow> numpy_stats \<Rightarrow> int \<Rightarrow> real \<Rightarrow> py_error + (dataframe \<times> pyfloat \<times> pyfloat \<times> pyfloat)" where
  "cells_4_5 np L n_value noise_value =
     (case cell4 np n_value noise_value of
        Inl e \<Rightarrow> Inl e
      | Inr df \<Rightarrow>
          (case cell5 L df of
             Inl e \<Rightarrow> Inl e
           | Inr (corr, m, b) \<Rightarrow> Inr (df, corr, m, b)))"

subsection \<open>The correlation in exact arithmetic\<close>

text \<open>
  The steps of \<open>np.cov\<close> and \<open>np.corrcoef\<close> up to the clip, with every operation exact:
  the means, the deviations from them, the three sums of products divided by \<open>N - 1\<close>,
  and the covariance divided by the two standard deviations; a standard deviation of 0
  gives \<open>0 / 0\<close>, NaN. On data for which every intermediate value is a double (small
  integers and halves, say) this is also what the floating-point computation returns.
\<close>

definition mean :: "real list \<Rightarrow> real" where
  "mean xs = sum_list xs / real (length xs)"

definition centred :: "real list \<Rightarrow> real list" where
  "centred xs = map (\<lambda>v. v - mean xs) xs"

definition dot :: "real list \<Rightarrow> real list \<Rightarrow> real" where
  "dot xs ys = sum_list (map2 (\<lambda>a b. a * b) xs ys)"

definition exact_corr_entry :: "real list \<Rightarrow> real list \<Rightarrow> pyfloat" where
  "exact_corr_entry a b =
     (let fact = real (length a) - 1;
          c_ab = dot (centred a) (centred b) / fact;
          c_aa = dot (centred a) (centred a) / fact;
          c_bb = dot (centred b) (centred b) / fact
      in if c_aa = 0 \<or> c_bb = 0 then NaN
         else Num (c_ab / sqrt c_aa / sqrt c_bb))"

text \<open>The variance of a column, which the claims about the correlation speak of.\<close>

definition Cov :: "real list \<Rightarrow> real list \<Rightarrow> real" where
  "Cov xs ys = dot (centred xs) (centred ys) / real (length xs)"

definition Var :: "real list \<Rightarrow> real" where
  "Var xs = Cov xs xs"


section \<open>Cell 7: the summary text\<close>

text \<open>
  The cell builds one f-string and hands it to \<open>mo.md\<close>. The model is the value of the
  f-string; strings are byte lists, so the two non-ASCII characters of the template are
  their UTF-8 bytes.
\<close>

definition digit_char :: "nat \<Rightarrow> char" where
  "digit_char d = ''0123456789'' ! d"

fun str_nat :: "nat \<Rightarrow> string" where
  "str_nat n = (if n < 10 then [digit_char n] else str_nat (n div 10) @ [digit_char (n mod 10)])"

declare str_nat.simps [simp del]

text \<open>\<open>str(i)\<close> of a Python int, which is what \<open>{n.value}\<close> inserts.\<close>

definition str_int :: "int \<Rightarrow> string" where
  "str_int i = (if i < 0 then ''-'' @ str_nat (nat (- i)) else str_nat (nat i))"

text \<open>Rounding to the nearest integer, a tie going to the even neighbour.\<close>

definition round_half_even :: "real \<Rightarrow> int" where
  "round_half_even r =
     (let f = \<lfloor>r\<rfloor>; d = r - of_int f in
      if d < 1 / 2 then f
      else if 1 / 2 < d then f + 1
      else if even f then f else f + 1)"

definition zfill :: "nat \<Rightarrow> string \<Rightarrow> string" where
  "zfill p s = replicate (p - length s) (CHR ''0'') @ s"

text \<open>
  The digits of \<open>format(v, ".pf")\<close> for a float whose value is the real number \<open>v\<close>: a
  minus sign when \<open>v\<close> is negative, then \<open>|v|\<close> rounded to \<open>p\<close> decimals, as integer digits, a
  point and exactly \<open>p\<close> digits (no point when \<open>p\<close> is 0). The sign is that of the argument,
  so a small negative number gives \<open>-0.00\<close>.
\<close>

definition format_fixed :: "nat \<Rightarrow> real \<Rightarrow> string" where
  "format_fixed p v =
     (let q = nat (round_half_even (\<bar>v\<bar> * 10 ^ p));
          ip = q div 10 ^ p;
          fp = q mod 10 ^ p
      in (if v < 0 then ''-'' else []) @ str_nat ip @
         (if p = 0 then [] else ''.'' @ zfill p (str_nat fp)))"

text \<open>
  \<open>format(f, ".pf")\<close> of any float: negative zero keeps its sign (\<open>-0.00\<close>); an infinity
  and NaN are spelled out, whatever the precision.
\<close>

fun format_f :: "nat \<Rightarrow> pyfloat \<Rightarrow> string" where
  "format_f p (Num v) = format_fixed p v"
| "format_f p NegZero = ''-'' @ format_fixed p 0"
| "format_f p PosInf = ''inf''"
| "format_f p NegInf = ''-inf''"
| "format_f p NaN = ''nan''"

definition nl :: string where
  "nl = [CHR 0x0A]"

definition backslash :: string where
  "backslash = [CHR 0x5C]"

definition approx_utf8 :: string where
  "approx_utf8 = [CHR 0xE2, CHR 0x89, CHR 0x88]"

text \<open>
  The template as the file has it, with the two non-ASCII characters named:
  \<^verbatim>\<open>
    mo.md(
        f"""
        ### Live summary
        - **n** = {n.value}
        - **<sigma>** = {noise.value}
        - **Correlation** `corr(x, y)` <approx> **{corr:.3f}**
        - **Fitted model**: \(\hat{{y}} = {m:.2f}\,x + {b:.2f}\)
        <8 spaces>
        **Interpretation.**
        Increasing noise (<sigma>) weakens the linear relationship (reduces |corr|) and
        makes the fitted line less predictive; increasing n stabilizes estimates.
        """
    )
  \<close>
  marimo does not call the decorated function: it compiles the cell from the text of the
  function body after \<open>textwrap.dedent\<close>, which takes the common indentation of 4 spaces
  off every line, the lines of the string literal included, and empties a line that holds
  nothing but spaces. So each template line starts with 4 spaces at run time, the line of
  8 spaces is empty, and the string ends with 4 spaces.

  \<open>{noise.value}\<close> inserts \<open>str\<close> of a float, the shortest decimal string that reads back
  as the same float. It is a function of the binary representation, so it is a parameter
  here (\<open>float_str\<close>). The backslashes of the template are kept by Python (they start no
  escape sequence), and the doubled braces are single braces. The correlation, the slope
  and the intercept are floats of any kind.
\<close>

definition cell7 :: "(real \<Rightarrow> string) \<Rightarrow> int \<Rightarrow> real \<Rightarrow> pyfloat \<Rightarrow> pyfloat \<Rightarrow> pyfloat \<Rightarrow> string" where
  "cell7 float_str n_value noise_value corr m b =
     nl @
     ''    ### Live summary'' @ nl @
     ''    - **n** = '' @ str_int n_value @ nl @
     ''    - **'' @ sigma_utf8 @ ''** = '' @ float_str noise_value @ nl @
     ''    - **Correlation** `corr(x, y)` '' @ approx_utf8 @ '' **'' @ format_f 3 corr @ ''**'' @ nl @
     ''    - **Fitted model**: '' @ backslash @ ''('' @ backslash @ ''hat{y} = '' @
        format_f 2 m @ backslash @ '',x + '' @ format_f 2 b @ backslash @ '')'' @ nl @
     nl @
     ''    **Interpretation.**'' @ nl @
     ''    Increasing noise ('' @ sigma_utf8 @ '') weakens the linear relationship (reduces |corr|) and'' @ nl @
     ''    makes the fitted line less predictive; increasing n stabilizes estimates.'' @ nl @
     ''    ''"

text \<open>
  A string shows a number to exactly \<open>p\<close> decimals: an optional minus sign, at least one
  digit, a point, and exactly \<open>p\<close> digits.
\<close>

definition is_digit :: "char \<Rightarrow> bool" where
  "is_digit c \<longleftrightarrow> c \<in> set ''0123456789''"

definition has_decimals :: "nat \<Rightarrow> string \<Rightarrow> bool" where
  "has_decimals p s \<longleftrightarrow>
     (let u = (if s \<noteq> [] \<and> hd s = CHR ''-'' then tl s else s);
          ip = takeWhile is_digit u;
          rest = drop (length ip) u
      in ip \<noteq> [] \<and> rest \<noteq> [] \<and> hd rest = CHR ''.'' \<and>
         length (tl rest) = p \<and> list_all is_digit (tl rest))"

section \<open>Libraries for examples\<close>

text \<open>
  A linear congruential generator on \<open>{0..<64}\<close>, standing for numpy's bit generator where
  a property is evaluated at a concrete input.
\<close>

definition example_np :: "nat numpy_random" where
  "example_np =
     \<lparr>default_rng = (\<lambda>seed. seed),
      standard_normal = (\<lambda>g. (real (g mod 7) - 3, (5 * g + 1) mod 64))\<rparr>"

text \<open>
  A statistics library for frames whose x column holds one value \<open>a\<close>, a single row in
  particular. The matrix of the fit then has rank 1. For \<open>a = 0\<close> the scaling of the
  columns divides by a norm of 0 and \<open>lstsq\<close> raises \<open>LinAlgError\<close>; otherwise \<open>lstsq\<close>
  returns the line of least norm, slope \<open>mean y / (2 * a)\<close> and intercept \<open>mean y / 2\<close>,
  written here with the sums of the columns. The correlation entry is the exact one.
\<close>

definition least_norm_line :: "real list \<Rightarrow> real list \<Rightarrow> (pyfloat \<times> pyfloat) option" where
  "least_norm_line x y =
     (if sum_list x = 0 then None
      else Some (Num (sum_list y / (2 * sum_list x)),
                 Num (sum_list y / (2 * real (length x)))))"

definition example_stats :: numpy_stats where
  "example_stats = \<lparr>corr_entry = exact_corr_entry, lstsq_line = least_norm_line\<rparr>"

section \<open>Properties of the generator\<close>

lemma normal_fill_length: "length (fst (normal_fill gauss loc scale k g)) = k"
proof (induction k arbitrary: g)
  case 0
  show ?case by simp
next
  case (Suc k)
  obtain z g' where z: "gauss g = (z, g')" by (cases "gauss g")
  obtain zs g'' where zs: "normal_fill gauss loc scale k g' = (zs, g'')"
    by (cases "normal_fill gauss loc scale k g'")
  have "length zs = k" using Suc.IH [of g'] zs by simp
  then show ?case using z zs by simp
qed

text \<open>What cell 4 returns for arguments that numpy accepts.\<close>

lemma cell4_ok:
  assumes "0 \<le> n" "0 \<le> \<sigma>"
  shows "cell4 np n \<sigma> =
     (let xr = normal_fill (standard_normal np) 0 1 (nat n) (default_rng np 123);
          er = normal_fill (standard_normal np) 0 \<sigma> (nat n) (snd xr)
      in Inr \<lparr>col_x = fst xr, col_y = map2 (\<lambda>a b. 2.5 * a + b) (fst xr) (fst er)\<rparr>)"
proof -
  obtain x g1 where xr: "normal_fill (standard_normal np) 0 1 (nat n) (default_rng np 123) = (x, g1)"
    by (cases "normal_fill (standard_normal np) 0 1 (nat n) (default_rng np 123)")
  obtain e g2 where er: "normal_fill (standard_normal np) 0 \<sigma> (nat n) g1 = (e, g2)"
    by (cases "normal_fill (standard_normal np) 0 \<sigma> (nat n) g1")
  have lx: "length x = nat n"
    using normal_fill_length [of "standard_normal np" 0 1 "nat n" "default_rng np 123"] xr by simp
  have le: "length e = nat n"
    using normal_fill_length [of "standard_normal np" 0 \<sigma> "nat n" g1] er by simp
  show ?thesis
    using assms xr er lx le by (simp add: cell4_def normal_def DataFrame_def)
qed

section \<open>Cell 3: the ranges of the controls\<close>

text \<open>
  C9. The two controls are built with the documented ranges: sample size from 100 to 5000
  in steps of 100, default 1000; noise from 0.0 to 2.0 in steps of 0.1, default 0.5.
\<close>

theorem cell3_ranges:
  "start (fst cell3) = 100 \<and> stop (fst cell3) = 5000 \<and> step (fst cell3) = 100 \<and>
   val (fst cell3) = 1000 \<and>
   start (snd cell3) = 0 \<and> stop (snd cell3) = 2 \<and> step (snd cell3) = 1 / 10 \<and>
   val (snd cell3) = 1 / 2"
  by (simp add: cell3_def)

section \<open>Cell 4: length, determinism, independence of the noise level\<close>

text \<open>
  C2. For a valid sample size \<open>n\<close> (positive) and a valid noise level (not negative), cell 4
  returns a frame, and both of its columns have exactly \<open>n\<close> entries.
\<close>

theorem cell4_length:
  assumes "0 < n" "0 \<le> \<sigma>"
  shows "\<exists>df. cell4 np n \<sigma> = Inr df \<and> int (length (col_x df)) = n \<and> int (length (col_y df)) = n"
proof -
  let ?xr = "normal_fill (standard_normal np) 0 1 (nat n) (default_rng np 123)"
  let ?er = "normal_fill (standard_normal np) 0 \<sigma> (nat n) (snd ?xr)"
  have lx: "length (fst ?xr) = nat n" by (rule normal_fill_length)
  have le: "length (fst ?er) = nat n" by (rule normal_fill_length)
  have "cell4 np n \<sigma> =
      Inr \<lparr>col_x = fst ?xr, col_y = map2 (\<lambda>a b. 2.5 * a + b) (fst ?xr) (fst ?er)\<rparr>"
    using cell4_ok [of n \<sigma> np] assms by (simp add: Let_def)
  then show ?thesis using lx le assms by simp
qed

theorem cell4_length_witness:
  "\<exists>df. cell4 example_np 3 (1 / 2) = Inr df \<and> int (length (col_x df)) = 3 \<and>
        int (length (col_y df)) = 3"
  using cell4_length [of 3 "1 / 2" example_np] by simp

text \<open>
  C1. Cell 4 seeds a fresh generator with the constant 123 each time it runs, and reads
  nothing else but its two arguments: two runs whose libraries agree on the generator for
  seed 123 and on the draw function return the same frame for the same sample size and
  noise level, and so the same correlation, slope and intercept.
\<close>

theorem cell4_deterministic:
  assumes "default_rng np 123 = default_rng np' 123"
    and "standard_normal np = standard_normal np'"
  shows "cell4 np n \<sigma> = cell4 np' n \<sigma> \<and> cells_4_5 np L n \<sigma> = cells_4_5 np' L n \<sigma>"
proof -
  have same_normal: "normal np = normal np'"
    using assms(2) by (intro ext) (simp add: normal_def)
  have "cell4 np n \<sigma> = cell4 np' n \<sigma>"
    unfolding cell4_def same_normal assms(1) by (rule refl)
  then show ?thesis by (simp add: cells_4_5_def)
qed

theorem cell4_deterministic_witness:
  "cell4 example_np 3 (1 / 2) = cell4 (example_np\<lparr>default_rng := \<lambda>seed. 123\<rparr>) 3 (1 / 2) \<and>
   cells_4_5 example_np example_stats 3 (1 / 2) =
     cells_4_5 (example_np\<lparr>default_rng := \<lambda>seed. 123\<rparr>) example_stats 3 (1 / 2)"
proof -
  have a: "default_rng example_np 123 = default_rng (example_np\<lparr>default_rng := \<lambda>seed. 123\<rparr>) 123"
    by (simp add: example_np_def)
  have b: "standard_normal example_np = standard_normal (example_np\<lparr>default_rng := \<lambda>seed. 123\<rparr>)"
    by simp
  show ?thesis by (rule cell4_deterministic [OF a b])
qed

text \<open>
  C10. The x column does not depend on the noise level: for one sample size and any two
  valid noise levels, both runs return a frame and the two x columns are equal.
\<close>

theorem cell4_x_independent_of_noise:
  assumes "0 \<le> n" "0 \<le> \<sigma>1" "0 \<le> \<sigma>2"
  shows "\<exists>df1 df2. cell4 np n \<sigma>1 = Inr df1 \<and> cell4 np n \<sigma>2 = Inr df2 \<and> col_x df1 = col_x df2"
  using cell4_ok [of n \<sigma>1 np] cell4_ok [of n \<sigma>2 np] assms by (simp add: Let_def)

theorem cell4_x_independent_of_noise_witness:
  "\<exists>df1 df2. cell4 example_np 3 0 = Inr df1 \<and> cell4 example_np 3 2 = Inr df2 \<and>
      col_x df1 = col_x df2"
  using cell4_x_independent_of_noise [of 3 0 2 example_np] by simp

section \<open>Cell 4: a sample size that is not positive\<close>

text \<open>
  C4 as stated (cell 4 fails for every sample size \<open>\<le> 0\<close>) does not hold: for sample
  size 0 it returns the empty frame.
\<close>

theorem cell4_zero_returns_empty:
  "cell4 example_np 0 (1 / 2) = Inr \<lparr>col_x = [], col_y = []\<rparr>"
  by (simp add: cell4_def normal_def DataFrame_def)

text \<open>
  C4, amended. Cell 4 has no check of its own. A negative sample size is refused by numpy
  with \<open>ValueError\<close>; sample size 0 with a valid noise level gives the empty frame.
\<close>

theorem cell4_nonpositive:
  assumes "n \<le> 0"
  shows "cell4 np n \<sigma> =
     (if n < 0 \<or> \<sigma> < 0 then Inl ValueError else Inr \<lparr>col_x = [], col_y = []\<rparr>)"
proof (cases "n < 0")
  case True
  then show ?thesis by (simp add: cell4_def normal_def)
next
  case False
  with assms have "n = 0" by simp
  then show ?thesis by (simp add: cell4_def normal_def DataFrame_def)
qed

theorem cell4_nonpositive_witness:
  "cell4 example_np (- 1) (1 / 2) = Inl ValueError"
  using cell4_nonpositive [of "- 1" example_np "1 / 2"] by simp

section \<open>Cell 5: what the cell raises and what the correlation can be\<close>

lemma clip_unit_range:
  "clip_unit f = NaN \<or> clip_unit f = NegZero \<or> (\<exists>c. clip_unit f = Num c \<and> \<bar>c\<bar> \<le> 1)"
  by (cases f) (simp_all add: abs_le_iff)

lemma series_corr_few: "length a < 2 \<Longrightarrow> series_corr entry a b = NaN"
  by (simp add: series_corr_def np_corrcoef_def)

lemma cell5_returns:
  "cell5 L df = Inr (corr, m, b) \<Longrightarrow> corr = series_corr (corr_entry L) (col_x df) (col_y df)"
  by (auto simp: cell5_def split: sum.splits prod.splits)

text \<open>
  C5 as stated does not hold: for a frame with a single row cell 5 raises nothing; it
  returns a NaN correlation and the least-norm line through the point.
\<close>

theorem cell5_single_row_returns:
  "cell5 example_stats \<lparr>col_x = [1], col_y = [5 / 2]\<rparr> = Inr (NaN, Num (5 / 4), Num (5 / 4))"
  by (simp add: cell5_def series_corr_def np_corrcoef_def np_polyfit_def example_stats_def
      least_norm_line_def)

text \<open>
  C5, amended. Cell 5 has no check of its own, and nothing it calls raises an
  \<open>InsufficientDataError\<close>. For a frame with fewer than 2 rows: an empty frame makes
  \<open>np.polyfit\<close> raise \<open>TypeError\<close>; a frame of one row has a NaN correlation, and cell 5
  returns it with the line \<open>np.polyfit\<close> gives, unless \<open>np.polyfit\<close> raises \<open>LinAlgError\<close>.
  Nothing is said here of a frame of 2 or more rows whose x column has zero variance.
\<close>

theorem cell5_few_rows:
  assumes "wf_df df" "length (col_x df) < 2"
  shows "(col_x df = [] \<longrightarrow> cell5 L df = Inl TypeError) \<and>
         (col_x df \<noteq> [] \<longrightarrow>
            cell5 L df = Inl LinAlgError \<or> (\<exists>m b. cell5 L df = Inr (NaN, m, b)))"
proof -
  have nan: "series_corr (corr_entry L) (col_x df) (col_y df) = NaN"
    by (rule series_corr_few [OF assms(2)])
  have len: "length (col_x df) = length (col_y df)" using assms(1) by (simp add: wf_df_def)
  have empty: "col_x df = [] \<Longrightarrow> cell5 L df = Inl TypeError"
    by (simp add: cell5_def np_polyfit_def)
  have nonempty: "cell5 L df = Inl LinAlgError \<or> (\<exists>m b. cell5 L df = Inr (NaN, m, b))"
    if "col_x df \<noteq> []"
  proof -
    have "\<not> length (col_x df) = 0" "\<not> length (col_x df) \<noteq> length (col_y df)"
      using that len by auto
    then have fit: "np_polyfit L (col_x df) (col_y df) =
        (case lstsq_line L (col_x df) (col_y df) of
           None \<Rightarrow> Inl LinAlgError
         | Some (m, b) \<Rightarrow> Inr (m, b))"
      unfolding np_polyfit_def by (simp only: if_False)
    show ?thesis
    proof (cases "lstsq_line L (col_x df) (col_y df)")
      case None
      then show ?thesis by (simp add: cell5_def fit)
    next
      case (Some mb)
      obtain m b where mb: "mb = (m, b)" by (cases mb)
      have "cell5 L df = Inr (NaN, m, b)"
        using Some mb nan by (simp add: cell5_def fit)
      then show ?thesis by blast
    qed
  qed
  show ?thesis using empty nonempty by blast
qed

theorem cell5_few_rows_witness:
  "cell5 example_stats \<lparr>col_x = [], col_y = []\<rparr> = Inl TypeError \<and>
   (cell5 example_stats \<lparr>col_x = [2], col_y = [3]\<rparr> = Inl LinAlgError \<or>
    (\<exists>m b. cell5 example_stats \<lparr>col_x = [2], col_y = [3]\<rparr> = Inr (NaN, m, b)))"
  using cell5_few_rows [of "\<lparr>col_x = [], col_y = []\<rparr>" example_stats]
    cell5_few_rows [of "\<lparr>col_x = [2], col_y = [3]\<rparr>" example_stats]
  by (simp add: wf_df_def)

text \<open>
  C6 as stated does not hold: two rows with different x values and the same y value meet
  its conditions (2 points, nonzero x variance), and the correlation is NaN, which is not
  a number of absolute value at most 1. Every intermediate value of this example is a
  double (the means 1/2 and 1, deviations of 1/2 and 0), so the exact entry is the one
  numpy computes: a covariance of 0 divided by a standard deviation of 0.
\<close>

theorem series_corr_constant_y_nan:
  "2 \<le> length [0, 1 :: real] \<and> Var [0, 1] \<noteq> 0 \<and>
   series_corr exact_corr_entry [0, 1] [1, 1] = NaN"
  by (simp add: Var_def Cov_def centred_def mean_def dot_def series_corr_def np_corrcoef_def
      exact_corr_entry_def)

text \<open>
  C6, amended. For every frame, whatever the floating-point computation of the covariance
  entry gives, the correlation of line 68 is either NaN or a number of absolute value at
  most 1 (negative zero among them): \<open>np.corrcoef\<close> clips its result to \<open>[-1, 1]\<close>, and
  NaN passes the clip. For 2 rows or more, a computed value that lies in \<open>[-1, 1]\<close> is
  returned as it is.
\<close>

theorem series_corr_nan_or_bounded:
  "(series_corr entry a b = NaN \<or> series_corr entry a b = NegZero \<or>
    (\<exists>c. series_corr entry a b = Num c \<and> \<bar>c\<bar> \<le> 1)) \<and>
   (2 \<le> length a \<longrightarrow> entry a b = Num v \<longrightarrow> \<bar>v\<bar> \<le> 1 \<longrightarrow>
      series_corr entry a b = Num v)"
proof -
  have range: "series_corr entry a b = NaN \<or> series_corr entry a b = NegZero \<or>
      (\<exists>c. series_corr entry a b = Num c \<and> \<bar>c\<bar> \<le> 1)"
    using clip_unit_range [of "entry a b"] by (simp add: series_corr_def np_corrcoef_def)
  have same: "series_corr entry a b = Num v"
    if "2 \<le> length a" "entry a b = Num v" "\<bar>v\<bar> \<le> 1"
  proof -
    have "length a \<noteq> 0" "\<not> real (length a) - 1 \<le> 0" using that(1) by auto
    moreover have "clip_unit (Num v) = Num v" using that(3) by (simp add: abs_le_iff)
    ultimately show ?thesis using that(2) by (simp add: series_corr_def np_corrcoef_def)
  qed
  show ?thesis using range same by blast
qed

theorem series_corr_nan_or_bounded_witness:
  "series_corr exact_corr_entry [0, 1, 2] [1, 3, 5] = Num 1"
proof -
  have e: "exact_corr_entry [0, 1, 2] [1, 3, 5] = Num 1"
    by (simp add: exact_corr_entry_def centred_def mean_def dot_def)
  have l: "2 \<le> length [0, 1, 2 :: real]" by simp
  have v: "\<bar>1 :: real\<bar> \<le> 1" by simp
  show ?thesis
    using series_corr_nan_or_bounded [of exact_corr_entry "[0, 1, 2]" "[1, 3, 5]" 1] e l v
    by blast
qed

section \<open>Cell 7: decimal digits\<close>

lemma is_digit_digit_char: "d < 10 \<Longrightarrow> is_digit (digit_char d)"
  by (simp add: is_digit_def digit_char_def del: set_simps)

lemma str_nat_nonempty: "str_nat n \<noteq> []"
  by (subst str_nat.simps) simp

lemma str_nat_digits: "list_all is_digit (str_nat n)"
proof (induction n rule: str_nat.induct)
  case (1 n)
  show ?case
  proof (cases "n < 10")
    case True
    then show ?thesis by (subst str_nat.simps) (simp add: is_digit_digit_char)
  next
    case False
    have "n mod 10 < 10" by simp
    then have "is_digit (digit_char (n mod 10))" by (rule is_digit_digit_char)
    then show ?thesis using False "1.IH" by (subst str_nat.simps) simp
  qed
qed

lemma str_nat_length: "0 < p \<Longrightarrow> n < 10 ^ p \<Longrightarrow> length (str_nat n) \<le> p"
proof (induction p arbitrary: n)
  case 0
  then show ?case by simp
next
  case (Suc q)
  show ?case
  proof (cases "n < 10")
    case True
    then show ?thesis by (subst str_nat.simps) simp
  next
    case False
    have q: "0 < q"
    proof (rule ccontr)
      assume "\<not> 0 < q"
      then have "q = 0" by simp
      with Suc.prems(2) False show False by simp
    qed
    have "n div 10 < 10 ^ q" using Suc.prems(2) by (simp add: less_mult_imp_div_less)
    then have "length (str_nat (n div 10)) \<le> q" using Suc.IH [OF q] by simp
    then show ?thesis using False by (subst str_nat.simps) simp
  qed
qed

lemma zfill_length: "length s \<le> p \<Longrightarrow> length (zfill p s) = p"
  by (simp add: zfill_def)

lemma zeros_digits: "list_all is_digit (replicate k (CHR ''0''))"
  by (induction k) (simp_all add: is_digit_def)

lemma zfill_digits: "list_all is_digit s \<Longrightarrow> list_all is_digit (zfill p s)"
  by (simp add: zfill_def zeros_digits)

lemma not_digit_point: "\<not> is_digit (CHR ''.'')"
  by (simp add: is_digit_def)

lemma not_digit_minus: "\<not> is_digit (CHR ''-'')"
  by (simp add: is_digit_def)

lemma has_decimals_unsigned:
  assumes "ds \<noteq> []" "list_all is_digit ds" "list_all is_digit fs" "length fs = p"
  shows "has_decimals p (ds @ ''.'' @ fs)"
proof -
  have hd: "hd (ds @ ''.'' @ fs) \<noteq> CHR ''-''"
    using assms(1,2) not_digit_minus by (cases ds) auto
  have tw: "takeWhile is_digit (ds @ CHR ''.'' # fs) = ds"
    using assms(2) not_digit_point by (simp add: list_all_iff)
  show ?thesis
    unfolding has_decimals_def Let_def using hd assms by (simp add: tw)
qed

lemma has_decimals_signed:
  assumes "ds \<noteq> []" "list_all is_digit ds" "list_all is_digit fs" "length fs = p"
  shows "has_decimals p (''-'' @ ds @ ''.'' @ fs)"
proof -
  have tw: "takeWhile is_digit (ds @ CHR ''.'' # fs) = ds"
    using assms(2) not_digit_point by (simp add: list_all_iff)
  show ?thesis
    unfolding has_decimals_def Let_def using assms by (simp add: tw)
qed


lemma format_fixed_shape:
  assumes "0 < p"
  shows "\<exists>ds fs. format_fixed p v = (if v < 0 then ''-'' else []) @ ds @ ''.'' @ fs \<and>
           ds \<noteq> [] \<and> list_all is_digit ds \<and> list_all is_digit fs \<and> length fs = p"
proof -
  define q where "q = nat (round_half_even (\<bar>v\<bar> * 10 ^ p))"
  define ds where "ds = str_nat (q div 10 ^ p)"
  define fs where "fs = zfill p (str_nat (q mod 10 ^ p))"
  have ds: "ds \<noteq> []" "list_all is_digit ds"
    by (simp_all add: ds_def str_nat_nonempty str_nat_digits)
  have "q mod 10 ^ p < 10 ^ p" by simp
  then have "length (str_nat (q mod 10 ^ p)) \<le> p" by (rule str_nat_length [OF assms])
  then have fs: "length fs = p" "list_all is_digit fs"
    by (simp_all add: fs_def zfill_length zfill_digits str_nat_digits)
  have eq: "format_fixed p v = (if v < 0 then ''-'' else []) @ ds @ ''.'' @ fs"
    using assms unfolding format_fixed_def Let_def q_def ds_def fs_def by simp
  show ?thesis using eq ds fs by blast
qed

lemma format_fixed_decimals:
  assumes "0 < p"
  shows "has_decimals p (format_fixed p v)"
proof -
  obtain ds fs where eq: "format_fixed p v = (if v < 0 then ''-'' else []) @ ds @ ''.'' @ fs"
    and ds: "ds \<noteq> []" "list_all is_digit ds" and fs: "list_all is_digit fs" "length fs = p"
    using format_fixed_shape [OF assms, of v] by blast
  show ?thesis
  proof (cases "v < 0")
    case True
    then show ?thesis
      using has_decimals_signed [OF ds fs] by (simp add: eq)
  next
    case False
    then show ?thesis
      using has_decimals_unsigned [OF ds fs] by (simp add: eq)
  qed
qed

lemma format_f_decimals:
  assumes "0 < p" "is_finite f"
  shows "has_decimals p (format_f p f)"
proof (cases f)
  case (Num v)
  then show ?thesis using format_fixed_decimals [OF assms(1)] by simp
next
  case NegZero
  obtain ds fs where eq: "format_fixed p 0 = (if (0::real) < 0 then ''-'' else []) @ ds @ ''.'' @ fs"
    and ds: "ds \<noteq> []" "list_all is_digit ds" and fs: "list_all is_digit fs" "length fs = p"
    using format_fixed_shape [OF assms(1), of 0] by blast
  show ?thesis
    using has_decimals_signed [OF ds fs] eq NegZero by simp
next
  case PosInf
  then show ?thesis using assms(2) by simp
next
  case NegInf
  then show ?thesis using assms(2) by simp
next
  case NaN
  then show ?thesis using assms(2) by simp
qed

text \<open>The rounded value is within half a unit of the last place.\<close>

lemma round_half_even_close: "\<bar>real_of_int (round_half_even r) - r\<bar> \<le> 1 / 2"
  unfolding round_half_even_def Let_def by (auto simp: abs_le_iff)

section \<open>Cell 7: the claim\<close>

text \<open>
  C8 as stated (for every result of cell 5) does not hold: the correlation can be NaN
  (a frame of one row gives NaN, 5/4, 5/4), and the report then shows \<open>nan\<close>, which has no
  decimals. The example takes \<open>format_fixed 1\<close> for \<open>str\<close> of the noise level 0.5.
\<close>

theorem cell7_nan_correlation:
  "cell7 (format_fixed 1) 100 (1 / 2) NaN (Num (5 / 4)) (Num (5 / 4)) =
     nl @
     ''    ### Live summary'' @ nl @
     ''    - **n** = 100'' @ nl @
     ''    - **'' @ sigma_utf8 @ ''** = 0.5'' @ nl @
     ''    - **Correlation** `corr(x, y)` '' @ approx_utf8 @ '' **nan**'' @ nl @
     ''    - **Fitted model**: '' @ backslash @ ''('' @ backslash @ ''hat{y} = 1.25'' @
        backslash @ '',x + 1.25'' @ backslash @ '')'' @ nl @
     nl @
     ''    **Interpretation.**'' @ nl @
     ''    Increasing noise ('' @ sigma_utf8 @ '') weakens the linear relationship (reduces |corr|) and'' @ nl @
     ''    makes the fitted line less predictive; increasing n stabilizes estimates.'' @ nl @
     ''    '' \<and>
   \<not> has_decimals 3 (format_f 3 NaN)"
proof -
  have f1: "format_fixed 1 (1 / 2) = ''0.5''"
    by code_simp
  have f2: "format_fixed 2 (5 / 4) = ''1.25''"
    by code_simp
  have i: "str_int 100 = ''100''"
    by code_simp
  have n: "\<not> has_decimals 3 (format_f 3 NaN)"
    by (simp add: has_decimals_def is_digit_def)
  show ?thesis
    using f1 f2 i n by (simp add: cell7_def)
qed

text \<open>
  C8, amended. The report is a fixed template around five fields: the sample size as an
  integer, \<open>str\<close> of the noise level, the correlation formatted with \<open>.3f\<close>, and the slope
  and the intercept formatted with \<open>.2f\<close>. A correlation that is a finite float is shown
  with exactly 3 decimals, a finite slope or intercept with exactly 2. A field that is
  NaN or an infinity is shown as \<open>nan\<close>, \<open>inf\<close> or \<open>-inf\<close>, without decimals.
\<close>

theorem cell7_report:
  "\<exists>p1 p2 p3 p4 p5 p6. \<forall>float_str n \<sigma> corr m b.
     cell7 float_str n \<sigma> corr m b =
       p1 @ str_int n @ p2 @ float_str \<sigma> @ p3 @ format_f 3 corr @ p4 @
       format_f 2 m @ p5 @ format_f 2 b @ p6 \<and>
     (is_finite corr \<longrightarrow> has_decimals 3 (format_f 3 corr)) \<and>
     (is_finite m \<longrightarrow> has_decimals 2 (format_f 2 m)) \<and>
     (is_finite b \<longrightarrow> has_decimals 2 (format_f 2 b)) \<and>
     (\<forall>f p. \<not> is_finite f \<longrightarrow>
        format_f p f = ''nan'' \<or> format_f p f = ''inf'' \<or> format_f p f = ''-inf'')"
proof -
  define p1 where "p1 = nl @ ''    ### Live summary'' @ nl @ ''    - **n** = ''"
  define p2 where "p2 = nl @ ''    - **'' @ sigma_utf8 @ ''** = ''"
  define p3 where
    "p3 = nl @ ''    - **Correlation** `corr(x, y)` '' @ approx_utf8 @ '' **''"
  define p4 where
    "p4 = ''**'' @ nl @ ''    - **Fitted model**: '' @ backslash @ ''('' @ backslash @
          ''hat{y} = ''"
  define p5 where "p5 = backslash @ '',x + ''"
  define p6 where
    "p6 = backslash @ '')'' @ nl @
     nl @
     ''    **Interpretation.**'' @ nl @
     ''    Increasing noise ('' @ sigma_utf8 @ '') weakens the linear relationship (reduces |corr|) and'' @ nl @
     ''    makes the fitted line less predictive; increasing n stabilizes estimates.'' @ nl @
     ''    ''"
  have shape: "cell7 float_str n \<sigma> corr m b =
       p1 @ str_int n @ p2 @ float_str \<sigma> @ p3 @ format_f 3 corr @ p4 @
       format_f 2 m @ p5 @ format_f 2 b @ p6"
    for float_str n \<sigma> corr m b
    by (simp add: cell7_def p1_def p2_def p3_def p4_def p5_def p6_def)
  have other: "format_f p f = ''nan'' \<or> format_f p f = ''inf'' \<or> format_f p f = ''-inf''"
    if "\<not> is_finite f" for f p
    using that by (cases f) simp_all
  show ?thesis
    using shape other
    by (intro exI [of _ p1] exI [of _ p2] exI [of _ p3] exI [of _ p4] exI [of _ p5]
        exI [of _ p6]) (simp add: format_f_decimals)
qed

theorem cell7_report_witness:
  "has_decimals 3 (format_f 3 (Num (1 / 2))) \<and>
   has_decimals 2 (format_f 2 (Num (- 5 / 4))) \<and>
   has_decimals 2 (format_f 2 NegZero) \<and>
   (format_f 2 PosInf = ''nan'' \<or> format_f 2 PosInf = ''inf'' \<or> format_f 2 PosInf = ''-inf'')"
proof -
  obtain p1 p2 p3 p4 p5 p6 where r: "\<forall>float_str n \<sigma> corr m b.
     cell7 float_str n \<sigma> corr m b =
       p1 @ str_int n @ p2 @ float_str \<sigma> @ p3 @ format_f 3 corr @ p4 @
       format_f 2 m @ p5 @ format_f 2 b @ p6 \<and>
     (is_finite corr \<longrightarrow> has_decimals 3 (format_f 3 corr)) \<and>
     (is_finite m \<longrightarrow> has_decimals 2 (format_f 2 m)) \<and>
     (is_finite b \<longrightarrow> has_decimals 2 (format_f 2 b)) \<and>
     (\<forall>f p. \<not> is_finite f \<longrightarrow>
        format_f p f = ''nan'' \<or> format_f p f = ''inf'' \<or> format_f p f = ''-inf'')"
    using cell7_report by blast
  have a: "is_finite (Num (1 / 2))" "is_finite (Num (- 5 / 4))" "is_finite NegZero"
    "\<not> is_finite PosInf"
    by simp_all
  show ?thesis
    using r [rule_format, of "format_fixed 1" 100 "1 / 2" "Num (1 / 2)" "Num (- 5 / 4)" NegZero]
      a by blast
qed


section \<open>Sums over two columns\<close>

lemma dot_Nil [simp]: "dot [] ys = 0"
  by (simp add: dot_def)

lemma dot_Cons [simp]: "dot (x # xs) (y # ys) = x * y + dot xs ys"
  by (simp add: dot_def)






section \<open>Noise level 0\<close>








end
